theory Spec2Isabelle
  imports Main
begin

section \<open>ReAct.py: a console chat loop around an agent framework\<close>

text \<open>
  The script reads four credentials from the environment, declares two tool
  callbacks, builds an LLM client, a memory and an agent executor from library
  constructors, and runs a read/invoke/print loop. The libraries (python-dotenv,
  wikipedia, langchain, the Azure OpenAI client) are not part of the script: their
  constructors and calls are parameters of the model, each returning either an
  exception or a value.

  Python strings are modelled as \<^typ>\<open>string\<close>, holding the UTF-8 bytes of the text.
\<close>

subsection \<open>Exceptions\<close>

text \<open>
  An exception is its class and the text \<open>str(e)\<close> gives for it. The classes the script
  names or can meet are listed; \<open>Exception_subclass\<close> stands for any other class deriving
  from \<open>Exception\<close> and \<open>BaseException_subclass\<close> for the classes that do not
  (\<open>KeyboardInterrupt\<close>, \<open>SystemExit\<close>), which an \<open>except Exception\<close> clause lets through.
\<close>

datatype exc_class =
    DisambiguationError
  | PageError
  | EOFError
  | KeyError
  | Exception_subclass string
  | BaseException_subclass string

datatype py_exception = Exc (cls: exc_class) (str: string)

fun derives_from_Exception :: "exc_class \<Rightarrow> bool" where
  "derives_from_Exception (BaseException_subclass _) = False"
| "derives_from_Exception _ = True"

subsection \<open>Python values and keyword arguments\<close>

text \<open>
  The values the script passes to library constructors: \<open>None\<close>, strings, integers,
  booleans, and references to objects built earlier (by the name of the variable holding
  them). A call's keyword arguments are the association list of its \<open>name=value\<close> pairs,
  in the order written.
\<close>

datatype pyval = PyNone | PyStr string | PyInt int | PyBool bool | PyRef string

type_synonym kwargs = "(string \<times> pyval) list"

subsection \<open>Step 1: load environment variables\<close>

text \<open>
  \<^verbatim>\<open>
  load_dotenv()
  openai_api_key = os.getenv("subscription_key")
  deployment = os.getenv("deployment")
  endpoint = os.getenv("endpoint")
  api_version = os.getenv("api_version")
  \<close>
  A process starts with its environment variables, the variables of a \<open>.env\<close> file
  (none when there is no file) and its command line. \<open>load_dotenv()\<close> adds the
  file's variables to the environment without replacing a variable already set.
  \<open>os.getenv\<close> gives \<open>None\<close> for a variable that is not set; it does not raise.
\<close>

type_synonym environment = "string \<rightharpoonup> string"

record process =
  environ :: environment
  dotenv_file :: environment
  argv :: "string list"

definition load_dotenv :: "environment \<Rightarrow> environment \<Rightarrow> environment" where
  "load_dotenv file env = file ++ env"

definition startup_environment :: "process \<Rightarrow> environment" where
  "startup_environment proc = load_dotenv (dotenv_file proc) (environ proc)"

definition getenv :: "environment \<Rightarrow> string \<Rightarrow> pyval" where
  "getenv env name = (case env name of None \<Rightarrow> PyNone | Some v \<Rightarrow> PyStr v)"

definition openai_api_key :: "environment \<Rightarrow> pyval" where
  "openai_api_key env = getenv env ''subscription_key''"

definition deployment :: "environment \<Rightarrow> pyval" where
  "deployment env = getenv env ''deployment''"

definition endpoint :: "environment \<Rightarrow> pyval" where
  "endpoint env = getenv env ''endpoint''"

definition api_version :: "environment \<Rightarrow> pyval" where
  "api_version env = getenv env ''api_version''"

subsection \<open>Step 2: the tools\<close>

text \<open>
  \<^verbatim>\<open>
  def get_current_datetime(*args, **kwargs):
      return datetime.now().isoformat()
  \<close>
  \<open>datetime.now()\<close> reads the clock: the reading is the parameter \<open>now\<close>, a naive
  datetime (no time zone). \<open>isoformat\<close> is the standard library's: the fields
  zero-padded as \<open>%04d-%02d-%02dT%02d:%02d:%02d\<close>, followed by \<open>.%06d\<close> of the
  microseconds when they are not zero.
\<close>

record datetime =
  year :: nat
  month :: nat
  day :: nat
  hour :: nat
  minute :: nat
  second :: nat
  microsecond :: nat

definition digit :: "nat \<Rightarrow> char" where
  "digit n = char_of (48 + n mod 10)"

fun decimal :: "nat \<Rightarrow> string" where
  "decimal n = (if n < 10 then [digit n] else decimal (n div 10) @ [digit (n mod 10)])"

declare decimal.simps [simp del]

definition zero_padded :: "nat \<Rightarrow> nat \<Rightarrow> string" where
  "zero_padded w n = replicate (w - length (decimal n)) (CHR ''0'') @ decimal n"

definition isoformat :: "datetime \<Rightarrow> string" where
  "isoformat d =
     zero_padded 4 (year d) @ ''-'' @ zero_padded 2 (month d) @ ''-'' @ zero_padded 2 (day d)
       @ ''T''
       @ zero_padded 2 (hour d) @ '':'' @ zero_padded 2 (minute d) @ '':''
       @ zero_padded 2 (second d)
       @ (if microsecond d \<noteq> 0 then ''.'' @ zero_padded 6 (microsecond d) else [])"

definition get_current_datetime ::
    "datetime \<Rightarrow> pyval list \<Rightarrow> kwargs \<Rightarrow> py_exception + string" where
  "get_current_datetime now args kwargs = Inr (isoformat now)"

text \<open>
  \<^verbatim>\<open>
  def get_wikipedia_summary(query):
      try:
          return wikipedia.summary(query)
      except wikipedia.exceptions.DisambiguationError as e:
          return f"Disambiguation error: {e}"
      except wikipedia.exceptions.PageError:
          return "Page not found."
      except Exception as e:
          return str(e)
  \<close>
  The Wikipedia client is the parameter \<open>summary\<close>. The handlers are tried in the
  order of the source; an exception no handler matches propagates.
\<close>

definition get_wikipedia_summary ::
    "(string \<Rightarrow> py_exception + string) \<Rightarrow> string \<Rightarrow> py_exception + string" where
  "get_wikipedia_summary summary query =
     (case summary query of
        Inr text \<Rightarrow> Inr text
      | Inl e \<Rightarrow>
          if cls e = DisambiguationError then Inr (''Disambiguation error: '' @ str e)
          else if cls e = PageError then Inr ''Page not found.''
          else if derives_from_Exception (cls e) then Inr (str e)
          else Inl e)"

text \<open>
  \<^verbatim>\<open>
  tools = [
      Tool(name="Date Time", func=get_current_datetime,
           description="Useful for checking the current date and time."),
      Tool(name="Wikipedia", func=get_wikipedia_summary,
           description="Useful for getting Wikipedia summaries."),
  ]
  \<close>
\<close>

definition tools :: "kwargs list" where
  "tools =
     [[(''name'', PyStr ''Date Time''), (''func'', PyRef ''get_current_datetime''),
       (''description'', PyStr ''Useful for checking the current date and time.'')],
      [(''name'', PyStr ''Wikipedia''), (''func'', PyRef ''get_wikipedia_summary''),
       (''description'', PyStr ''Useful for getting Wikipedia summaries.'')]]"

subsection \<open>Steps 3 to 5: prompt, LLM client, memory, agent and executor\<close>

text \<open>
  \<^verbatim>\<open>
  prompt = hub.pull("hwchase17/react")
  llm = AzureChatOpenAI(azure_deployment=deployment, azure_endpoint=endpoint,
                        api_key=openai_api_key, api_version=api_version, temperature=0)
  memory = ConversationSummaryBufferMemory(llm=llm, memory_key="chat_history",
                        max_token_limit=150, return_messages=True, k=10)
  agent = create_react_agent(llm=llm, tools=tools, prompt=prompt, stop_sequence=True)
  agent_executor = AgentExecutor.from_agent_and_tools(agent=agent, tools=tools,
                        memory=memory, verbose=True, handle_parsing_errors=True)
  \<close>
\<close>

definition AzureChatOpenAI_kwargs :: "environment \<Rightarrow> kwargs" where
  "AzureChatOpenAI_kwargs env =
     [(''azure_deployment'', deployment env),
      (''azure_endpoint'', endpoint env),
      (''api_key'', openai_api_key env),
      (''api_version'', api_version env),
      (''temperature'', PyInt 0)]"

definition ConversationSummaryBufferMemory_kwargs :: kwargs where
  "ConversationSummaryBufferMemory_kwargs =
     [(''llm'', PyRef ''llm''),
      (''memory_key'', PyStr ''chat_history''),
      (''max_token_limit'', PyInt 150),
      (''return_messages'', PyBool True),
      (''k'', PyInt 10)]"

definition create_react_agent_kwargs :: kwargs where
  "create_react_agent_kwargs =
     [(''llm'', PyRef ''llm''), (''tools'', PyRef ''tools''), (''prompt'', PyRef ''prompt''),
      (''stop_sequence'', PyBool True)]"

definition from_agent_and_tools_kwargs :: kwargs where
  "from_agent_and_tools_kwargs =
     [(''agent'', PyRef ''agent''), (''tools'', PyRef ''tools''), (''memory'', PyRef ''memory''),
      (''verbose'', PyBool True), (''handle_parsing_errors'', PyBool True)]"

text \<open>
  The libraries. Each constructor either raises (\<open>Some e\<close>) or returns its object
  (\<open>None\<close>); \<open>ainvoke\<close> is the executor's call for one query, in a world \<open>'w\<close> (the
  memory, the LLM service, the network, the clock) that it may change: it raises or
  returns the response dictionary.
\<close>

record 'w framework =
  hub_pull :: "string \<Rightarrow> py_exception option"
  AzureChatOpenAI :: "kwargs \<Rightarrow> py_exception option"
  ConversationSummaryBufferMemory :: "kwargs \<Rightarrow> py_exception option"
  create_react_agent :: "kwargs \<Rightarrow> py_exception option"
  from_agent_and_tools :: "kwargs \<Rightarrow> py_exception option"
  ainvoke :: "'w \<Rightarrow> string \<Rightarrow> (py_exception + (string \<rightharpoonup> string)) \<times> 'w"

text \<open>
  The module-level statements run in order and none is inside a \<open>try\<close>: the first
  constructor that raises ends the start-up with its exception.
\<close>

definition startup :: "'w framework \<Rightarrow> environment \<Rightarrow> py_exception option" where
  "startup fw env =
     (case hub_pull fw ''hwchase17/react'' of Some e \<Rightarrow> Some e | None \<Rightarrow>
      case AzureChatOpenAI fw (AzureChatOpenAI_kwargs env) of Some e \<Rightarrow> Some e | None \<Rightarrow>
      case ConversationSummaryBufferMemory fw ConversationSummaryBufferMemory_kwargs of
        Some e \<Rightarrow> Some e | None \<Rightarrow>
      case create_react_agent fw create_react_agent_kwargs of Some e \<Rightarrow> Some e | None \<Rightarrow>
      from_agent_and_tools fw from_agent_and_tools_kwargs)"

subsection \<open>Step 6: the main loop\<close>

text \<open>
  \<^verbatim>\<open>
  async def main():
      print("<robot> ReAct Agent with Tools and Memory (LangChain + Azure OpenAI)")
      while True:
          query = input("\nAsk something (or 'quit'): ")
          if query.lower() == "quit":
              break
          response = await agent_executor.ainvoke({"input": query})
          print("\n<megaphone> Response:\n", response["output"])

  if __name__ == '__main__':
      asyncio.run(main())
  \<close>
  (\<open><robot>\<close> and \<open><megaphone>\<close> are the emoji U+1F916 and U+1F4E3 of the source.)

  What the program does is recorded as a trace: each text it writes to standard
  output and each query it hands to the executor. Standard input is the list of the
  lines still to come; \<open>input\<close> writes its prompt, then returns the next line or raises
  \<open>EOFError\<close> when there is none. Each turn of the \<open>while\<close> loop consumes one line, so
  the loop is a recursion on that list. \<open>print\<close> writes its arguments separated by a
  space and ends the line.

  \<open>str.lower\<close> maps \<open>A\<close> .. \<open>Z\<close> to \<open>a\<close> .. \<open>z\<close>; the bytes of a character outside
  ASCII are left as they are, which decides the comparison with \<open>quit\<close> as Python
  does: no character outside ASCII has one of \<open>q\<close>, \<open>u\<close>, \<open>i\<close>, \<open>t\<close> as its whole
  lower case.
\<close>

datatype event = Stdout string | AgentInvoked string

datatype outcome = Returned | Uncaught py_exception

definition lower_char :: "char \<Rightarrow> char" where
  "lower_char c =
     (if 65 \<le> (of_char c :: nat) \<and> (of_char c :: nat) \<le> 90 then char_of (of_char c + 32 :: nat)
      else c)"

definition lower :: "string \<Rightarrow> string" where
  "lower s = map lower_char s"

fun join_space :: "string list \<Rightarrow> string" where
  "join_space [] = []"
| "join_space [a] = a"
| "join_space (a # b # rest) = a @ '' '' @ join_space (b # rest)"

definition print_line :: "string list \<Rightarrow> string" where
  "print_line args = join_space args @ [CHR 0x0A]"

definition banner :: string where
  "banner = [CHR 0xF0, CHR 0x9F, CHR 0xA4, CHR 0x96]
     @ '' ReAct Agent with Tools and Memory (LangChain + Azure OpenAI)''"

definition ask_prompt :: string where
  "ask_prompt = [CHR 0x0A] @ ''Ask something (or '' @ [CHR 0x27] @ ''quit'' @ [CHR 0x27] @ ''): ''"

definition response_label :: string where
  "response_label = [CHR 0x0A, CHR 0xF0, CHR 0x9F, CHR 0x93, CHR 0xA3] @ '' Response:''
     @ [CHR 0x0A]"

fun main_loop ::
    "('w \<Rightarrow> string \<Rightarrow> (py_exception + (string \<rightharpoonup> string)) \<times> 'w) \<Rightarrow> 'w \<Rightarrow> string list
       \<Rightarrow> event list \<times> outcome" where
  "main_loop invoke w [] =
     ([Stdout ask_prompt], Uncaught (Exc EOFError ''EOF when reading a line''))"
| "main_loop invoke w (query # stdin) =
     (if lower query = ''quit'' then ([Stdout ask_prompt], Returned)
      else
        (case invoke w query of
           (Inl e, w') \<Rightarrow> ([Stdout ask_prompt, AgentInvoked query], Uncaught e)
         | (Inr response, w') \<Rightarrow>
             (case response ''output'' of
                None \<Rightarrow>
                  ([Stdout ask_prompt, AgentInvoked query],
                   Uncaught (Exc KeyError ([CHR 0x27] @ ''output'' @ [CHR 0x27])))
              | Some output \<Rightarrow>
                  (case main_loop invoke w' stdin of
                     (events, result) \<Rightarrow>
                       (Stdout ask_prompt # AgentInvoked query
                          # Stdout (print_line [response_label, output]) # events,
                        result)))))"

definition main ::
    "('w \<Rightarrow> string \<Rightarrow> (py_exception + (string \<rightharpoonup> string)) \<times> 'w) \<Rightarrow> 'w \<Rightarrow> string list
       \<Rightarrow> event list \<times> outcome" where
  "main invoke w stdin =
     (case main_loop invoke w stdin of
        (events, result) \<Rightarrow> (Stdout (print_line [banner]) # events, result))"

text \<open>
  The whole script: the start-up, then \<open>main\<close>. An exception of the start-up is
  uncaught and ends the process before \<open>main\<close> is entered. The exit status is 0 when
  \<open>main\<close> returns and 1 after an uncaught exception deriving from \<open>Exception\<close>.
\<close>

definition program ::
    "'w framework \<Rightarrow> process \<Rightarrow> 'w \<Rightarrow> string list \<Rightarrow> event list \<times> outcome" where
  "program fw proc w stdin =
     (case startup fw (startup_environment proc) of
        Some e \<Rightarrow> ([], Uncaught e)
      | None \<Rightarrow> main (ainvoke fw) w stdin)"

fun exit_code :: "outcome \<Rightarrow> nat option" where
  "exit_code Returned = Some 0"
| "exit_code (Uncaught e) = (if derives_from_Exception (cls e) then Some 1 else None)"

subsection \<open>Notions the properties are stated with\<close>

text \<open>
  The sixteen spellings of \<open>quit\<close> in upper and lower case: the inputs equal to
  \<open>quit\<close> when case is ignored.
\<close>

definition quit_spellings :: "string list" where
  "quit_spellings =
     [[a, b, c, d]. a \<leftarrow> ''qQ'', b \<leftarrow> ''uU'', c \<leftarrow> ''iI'', d \<leftarrow> ''tT'']"

text \<open>
  A run of turns that all end in a printed answer: none of the lines is a spelling of
  \<open>quit\<close> and the executor returns, for each in turn, a response with an output. The
  result is what these turns put on the trace and the world they leave behind; there
  is none when one of the lines ends the loop.
\<close>

fun answered_turns ::
    "('w \<Rightarrow> string \<Rightarrow> (py_exception + (string \<rightharpoonup> string)) \<times> 'w) \<Rightarrow> 'w \<Rightarrow> string list
       \<Rightarrow> (event list \<times> 'w) option" where
  "answered_turns invoke w [] = Some ([], w)"
| "answered_turns invoke w (query # queries) =
     (if lower query = ''quit'' then None
      else
        (case invoke w query of
           (Inl e, w') \<Rightarrow> None
         | (Inr response, w') \<Rightarrow>
             (case response ''output'' of
                None \<Rightarrow> None
              | Some answer \<Rightarrow>
                  (case answered_turns invoke w' queries of
                     None \<Rightarrow> None
                   | Some (events, w'') \<Rightarrow>
                       Some (Stdout ask_prompt # AgentInvoked query
                               # Stdout (print_line [response_label, answer]) # events,
                             w'')))))"

text \<open>
  The fields of a datetime object are in their calendar ranges. A reader of the ISO 8601
  extended format \<open>YYYY-MM-DDThh:mm:ss\<close> with an optional fraction of six digits:
  it gives the fields of a text of that form, and nothing for any other text.
\<close>

definition datetime_in_range :: "datetime \<Rightarrow> bool" where
  "datetime_in_range d =
     (1 \<le> year d \<and> year d \<le> 9999 \<and> 1 \<le> month d \<and> month d \<le> 12
      \<and> 1 \<le> day d \<and> day d \<le> 31 \<and> hour d < 24 \<and> minute d < 60 \<and> second d < 60
      \<and> microsecond d < 1000000)"

definition is_digit :: "char \<Rightarrow> bool" where
  "is_digit c = (48 \<le> (of_char c :: nat) \<and> (of_char c :: nat) \<le> 57)"

definition digits_value :: "string \<Rightarrow> nat option" where
  "digits_value s =
     (if s \<noteq> [] \<and> list_all is_digit s
      then Some (foldl (\<lambda>a c. 10 * a + (of_char c - 48)) 0 s) else None)"

definition iso8601_datetime :: "string \<Rightarrow> datetime option" where
  "iso8601_datetime s =
     (if (length s = 19 \<or> length s = 26)
         \<and> s ! 4 = CHR ''-'' \<and> s ! 7 = CHR ''-'' \<and> s ! 10 = CHR ''T''
         \<and> s ! 13 = CHR '':'' \<and> s ! 16 = CHR '':''
         \<and> (length s = 19 \<or> s ! 19 = CHR ''.'')
      then
        (case (digits_value (take 4 s), digits_value (take 2 (drop 5 s)),
               digits_value (take 2 (drop 8 s)), digits_value (take 2 (drop 11 s)),
               digits_value (take 2 (drop 14 s)), digits_value (take 2 (drop 17 s)),
               if length s = 19 then Some 0 else digits_value (drop 20 s)) of
           (Some y, Some mo, Some d, Some h, Some mi, Some sec, Some us) \<Rightarrow>
             if 1 \<le> mo \<and> mo \<le> 12 \<and> 1 \<le> d \<and> d \<le> 31 \<and> h < 24 \<and> mi < 60 \<and> sec < 60
             then Some \<lparr>year = y, month = mo, day = d, hour = h, minute = mi, second = sec,
                        microsecond = us\<rparr>
             else None
         | _ \<Rightarrow> None)
      else None)"

subsection \<open>Example libraries, processes and sessions\<close>

text \<open>
  Concrete parameters on which the script is run below. \<open>client_checking_credentials\<close>
  is a client constructor that insists on an API key, an endpoint and an API version
  and takes the deployment as optional; \<open>answering\<close> is an executor that answers every
  query, \<open>failing_provider\<close> one whose LLM call fails on every query, \<open>answering_once\<close>
  one that answers its first query and fails from then on, \<open>answering_without_output\<close>
  one whose response has no \<open>output\<close> entry.
\<close>

definition client_checking_credentials :: "kwargs \<Rightarrow> py_exception option" where
  "client_checking_credentials kw =
     (if map_of kw ''api_key'' = Some PyNone \<or> map_of kw ''azure_endpoint'' = Some PyNone
         \<or> map_of kw ''api_version'' = Some PyNone
      then Some (Exc (Exception_subclass ''OpenAIError'') ''Missing credentials.'')
      else None)"

definition answering :: "unit \<Rightarrow> string \<Rightarrow> (py_exception + (string \<rightharpoonup> string)) \<times> unit" where
  "answering w query = (Inr [''input'' \<mapsto> query, ''output'' \<mapsto> ''It is noon.''], w)"

definition failing_provider ::
    "unit \<Rightarrow> string \<Rightarrow> (py_exception + (string \<rightharpoonup> string)) \<times> unit" where
  "failing_provider w query =
     (Inl (Exc (Exception_subclass ''APIConnectionError'') ''Connection error.''), w)"

definition example_framework :: "unit framework" where
  "example_framework =
     \<lparr>hub_pull = (\<lambda>name. None),
      AzureChatOpenAI = client_checking_credentials,
      ConversationSummaryBufferMemory = (\<lambda>kw. None),
      create_react_agent = (\<lambda>kw. None),
      from_agent_and_tools = (\<lambda>kw. None),
      ainvoke = answering\<rparr>"

definition process_without_deployment :: process where
  "process_without_deployment =
     \<lparr>environ = [''subscription_key'' \<mapsto> ''0123abcd'',
                 ''endpoint'' \<mapsto> ''https://example.openai.azure.com'',
                 ''api_version'' \<mapsto> ''2024-02-01''],
      dotenv_file = Map.empty,
      argv = [''ReAct.py'']\<rparr>"

definition process_without_key :: process where
  "process_without_key =
     \<lparr>environ = [''deployment'' \<mapsto> ''gpt-4o'',
                 ''endpoint'' \<mapsto> ''https://example.openai.azure.com'',
                 ''api_version'' \<mapsto> ''2024-02-01''],
      dotenv_file = Map.empty,
      argv = [''ReAct.py'']\<rparr>"

definition process_setting_options :: process where
  "process_setting_options =
     \<lparr>environ = [''temperature'' \<mapsto> ''0.7'', ''max_token_limit'' \<mapsto> ''4000'',
                 ''k'' \<mapsto> ''2'', ''max_iterations'' \<mapsto> ''3''],
      dotenv_file = [''deployment'' \<mapsto> ''gpt-4o''],
      argv = [''ReAct.py'', ''--temperature'', ''0.7'']\<rparr>"

definition client_refusing_other_temperatures :: "kwargs \<Rightarrow> py_exception option" where
  "client_refusing_other_temperatures kw =
     (if map_of kw ''temperature'' = Some (PyInt 0) then client_checking_credentials kw
      else Some (Exc (Exception_subclass ''ValueError'') ''temperature''))"

definition process_with_deployment_only :: process where
  "process_with_deployment_only =
     \<lparr>environ = [''deployment'' \<mapsto> ''gpt-4o''],
      dotenv_file = Map.empty,
      argv = [''ReAct.py'', ''--verbose'']\<rparr>"

definition answering_once ::
    "nat \<Rightarrow> string \<Rightarrow> (py_exception + (string \<rightharpoonup> string)) \<times> nat" where
  "answering_once w query =
     (if w = 0 then (Inr [''input'' \<mapsto> query, ''output'' \<mapsto> ''It is noon.''], 1)
      else (Inl (Exc (Exception_subclass ''APIConnectionError'') ''Connection error.''), w))"

definition answering_without_output ::
    "unit \<Rightarrow> string \<Rightarrow> (py_exception + (string \<rightharpoonup> string)) \<times> unit" where
  "answering_without_output w query = (Inr [''input'' \<mapsto> query], w)"


definition noon :: datetime where
  "noon = \<lparr>year = 2026, month = 11, day = 3, hour = 12, minute = 0, second = 7,
            microsecond = 1234\<rparr>"

section \<open>Properties\<close>

subsection \<open>Lower case and the spellings of quit\<close>

lemma lower_char_eq_iff:
  "lower_char c = x \<longleftrightarrow>
     (if 65 \<le> (of_char c :: nat) \<and> (of_char c :: nat) \<le> 90
      then (of_char x :: nat) = of_char c + 32 else c = x)"
proof (cases "65 \<le> (of_char c :: nat) \<and> (of_char c :: nat) \<le> 90")
  case True
  then have "lower_char c = char_of (of_char c + 32 :: nat)"
    by (simp add: lower_char_def)
  moreover have "char_of (of_char c + 32 :: nat) = x \<longleftrightarrow> (of_char x :: nat) = of_char c + 32"
    using True by (auto simp: char_of_eq_iff take_bit_eq_mod)
  ultimately show ?thesis using True by simp
next
  case False
  then have "lower_char c = c"
    unfolding lower_char_def by (rule if_not_P)
  with False show ?thesis by (simp only: if_False)
qed

lemma lower_char_q: "lower_char c = CHR ''q'' \<longleftrightarrow> c = CHR ''q'' \<or> c = CHR ''Q''"
proof -
  have "(of_char c :: nat) = 81 \<longleftrightarrow> c = CHR ''Q''"
    using of_char_eq_iff [of c "CHR ''Q''", where ?'a = nat] by simp
  moreover have "c = CHR ''q'' \<Longrightarrow> (of_char c :: nat) = 113" by simp
  ultimately show ?thesis by (auto simp: lower_char_eq_iff)
qed

lemma lower_char_u: "lower_char c = CHR ''u'' \<longleftrightarrow> c = CHR ''u'' \<or> c = CHR ''U''"
proof -
  have "(of_char c :: nat) = 85 \<longleftrightarrow> c = CHR ''U''"
    using of_char_eq_iff [of c "CHR ''U''", where ?'a = nat] by simp
  moreover have "c = CHR ''u'' \<Longrightarrow> (of_char c :: nat) = 117" by simp
  ultimately show ?thesis by (auto simp: lower_char_eq_iff)
qed

lemma lower_char_i: "lower_char c = CHR ''i'' \<longleftrightarrow> c = CHR ''i'' \<or> c = CHR ''I''"
proof -
  have "(of_char c :: nat) = 73 \<longleftrightarrow> c = CHR ''I''"
    using of_char_eq_iff [of c "CHR ''I''", where ?'a = nat] by simp
  moreover have "c = CHR ''i'' \<Longrightarrow> (of_char c :: nat) = 105" by simp
  ultimately show ?thesis by (auto simp: lower_char_eq_iff)
qed

lemma lower_char_t: "lower_char c = CHR ''t'' \<longleftrightarrow> c = CHR ''t'' \<or> c = CHR ''T''"
proof -
  have "(of_char c :: nat) = 84 \<longleftrightarrow> c = CHR ''T''"
    using of_char_eq_iff [of c "CHR ''T''", where ?'a = nat] by simp
  moreover have "c = CHR ''t'' \<Longrightarrow> (of_char c :: nat) = 116" by simp
  ultimately show ?thesis by (auto simp: lower_char_eq_iff)
qed

text \<open>The test of the loop, \<open>query.lower() == "quit"\<close>, holds of the sixteen spellings only.\<close>

lemma lower_eq_quit_iff: "lower s = ''quit'' \<longleftrightarrow> s \<in> set quit_spellings"
proof -
  have "lower s = ''quit'' \<longleftrightarrow>
        (\<exists>a b c d. s = [a, b, c, d] \<and> lower_char a = CHR ''q'' \<and> lower_char b = CHR ''u''
           \<and> lower_char c = CHR ''i'' \<and> lower_char d = CHR ''t'')"
    by (auto simp: lower_def map_eq_Cons_conv)
  also have "\<dots> \<longleftrightarrow> s \<in> set quit_spellings"
    unfolding lower_char_q lower_char_u lower_char_i lower_char_t
    by (auto simp: quit_spellings_def)
  finally show ?thesis .
qed

subsection \<open>The interactive loop\<close>

text \<open>
  C2. For every line the loop reads: when the line is \<open>quit\<close> in any mix of upper and
  lower case, the loop ends at once, \<open>main\<close> returns (exit status 0) and the executor is
  not invoked for it; for every other line, the executor is invoked with exactly that
  line as the query, in the world as it stands, and what the executor does with it
  decides the rest of the turn: its exception ends the loop, its answer is printed and
  the loop goes on in the world the call left.
\<close>

theorem quit_ends_loop_other_input_is_forwarded:
  "(query \<in> set quit_spellings \<longrightarrow>
      main_loop invoke w (query # stdin) = ([Stdout ask_prompt], Returned)
      \<and> exit_code (snd (main_loop invoke w (query # stdin))) = Some 0)
   \<and> (query \<notin> set quit_spellings \<longrightarrow>
      (\<exists>events result.
         main_loop invoke w (query # stdin)
           = (Stdout ask_prompt # AgentInvoked query # events, result))
      \<and> main_loop invoke w (query # stdin)
          = (case invoke w query of
               (Inl e, w') \<Rightarrow> ([Stdout ask_prompt, AgentInvoked query], Uncaught e)
             | (Inr response, w') \<Rightarrow>
                 (case response ''output'' of
                    None \<Rightarrow>
                      ([Stdout ask_prompt, AgentInvoked query],
                       Uncaught (Exc KeyError ([CHR 0x27] @ ''output'' @ [CHR 0x27])))
                  | Some answer \<Rightarrow>
                      (Stdout ask_prompt # AgentInvoked query
                         # Stdout (print_line [response_label, answer])
                         # fst (main_loop invoke w' stdin),
                       snd (main_loop invoke w' stdin)))))"
  by (auto simp: lower_eq_quit_iff [symmetric] split: prod.splits sum.splits option.splits)

theorem quit_ends_loop_other_input_is_forwarded_witness:
  "main_loop answering () [''QuIt'', ''never read''] = ([Stdout ask_prompt], Returned)
   \<and> main_loop answering () [''quit now'', ''quit'']
       = ([Stdout ask_prompt, AgentInvoked ''quit now'',
           Stdout (print_line [response_label, ''It is noon.'']), Stdout ask_prompt],
          Returned)
   \<and> main_loop answering_once 1 [''quit now'', ''quit'']
       = ([Stdout ask_prompt, AgentInvoked ''quit now''],
          Uncaught (Exc (Exception_subclass ''APIConnectionError'') ''Connection error.''))"
  using quit_ends_loop_other_input_is_forwarded [of "''QuIt''" answering "()" "[''never read'']"]
        quit_ends_loop_other_input_is_forwarded [of "''quit now''" answering "()" "[''quit'']"]
        quit_ends_loop_other_input_is_forwarded [of "''quit now''" answering_once 1 "[''quit'']"]
  by (simp add: lower_eq_quit_iff quit_spellings_def answering_def answering_once_def)

text \<open>
  C8. For every query the executor answers, the loop prints the answer (the \<open>output\<close>
  entry of the response) after one label, the same constant text on every turn: label,
  a space, the answer, end of line.
\<close>

theorem final_answer_printed_after_fixed_label:
  assumes "lower query \<noteq> ''quit''"
    and "invoke w query = (Inr response, w')"
    and "response ''output'' = Some answer"
  shows "\<exists>events result.
           main_loop invoke w (query # stdin)
             = (Stdout ask_prompt # AgentInvoked query
                  # Stdout (response_label @ '' '' @ answer @ [CHR 0x0A]) # events,
                result)"
  using assms by (simp add: print_line_def split: prod.splits)

theorem final_answer_printed_after_fixed_label_witness:
  "\<exists>events result.
     main_loop answering () [''what time is it'', ''quit'']
       = (Stdout ask_prompt # AgentInvoked ''what time is it''
            # Stdout (response_label @ '' It is noon.'' @ [CHR 0x0A]) # events,
          result)"
  using final_answer_printed_after_fixed_label
          [of "''what time is it''" answering "()"
              "[''input'' \<mapsto> ''what time is it'', ''output'' \<mapsto> ''It is noon.'']" "()"
              "''It is noon.''" "[''quit'']"]
  by (simp add: answering_def lower_eq_quit_iff quit_spellings_def)

text \<open>The loop after a run of answered turns: their trace, then the loop on what is left.\<close>

lemma main_loop_after_answered_turns:
  "answered_turns invoke w queries = Some (events, w1) \<Longrightarrow>
     main_loop invoke w (queries @ stdin)
       = (events @ fst (main_loop invoke w1 stdin), snd (main_loop invoke w1 stdin))"
proof (induction queries arbitrary: w events)
  case Nil
  then show ?case by simp
next
  case (Cons query queries)
  then show ?case
    by (auto split: if_splits prod.splits sum.splits option.splits)
qed

text \<open>
  C1, as the script has it. The loop has no exception handler. At any point of a
  session, after any number of answered queries, when the executor raises for a query
  (a failed LLM call, a tool or parsing failure the framework lets through) the
  exception leaves \<open>main\<close>: the process ends with it, the program prints nothing
  more and the lines still waiting on standard input are not read. A response without
  an output ends the session likewise, with a \<open>KeyError\<close>. Only after a response
  with an output does the loop print the answer and go on to the next line. A program
  whose start-up calls all returned runs \<open>main\<close> so.
\<close>

theorem agent_exception_ends_loop:
  assumes "answered_turns invoke w queries = Some (events, w1)"
    and "lower query \<noteq> ''quit''"
  shows "(invoke w1 query = (Inl e, w2) \<longrightarrow>
            main invoke w (queries @ query # stdin)
              = (Stdout (print_line [banner]) # events @ [Stdout ask_prompt, AgentInvoked query],
                 Uncaught e))
       \<and> (invoke w1 query = (Inr response, w2) \<and> response ''output'' = None \<longrightarrow>
            main invoke w (queries @ query # stdin)
              = (Stdout (print_line [banner]) # events @ [Stdout ask_prompt, AgentInvoked query],
                 Uncaught (Exc KeyError ([CHR 0x27] @ ''output'' @ [CHR 0x27]))))
       \<and> (invoke w1 query = (Inr response, w2) \<and> response ''output'' = Some answer \<longrightarrow>
            main invoke w (queries @ query # stdin)
              = (Stdout (print_line [banner]) # events
                   @ Stdout ask_prompt # AgentInvoked query
                   # Stdout (print_line [response_label, answer])
                   # fst (main_loop invoke w2 stdin),
                 snd (main_loop invoke w2 stdin)))
       \<and> (hub_pull fw ''hwchase17/react'' = None
            \<and> AzureChatOpenAI fw (AzureChatOpenAI_kwargs (startup_environment proc)) = None
            \<and> ConversationSummaryBufferMemory fw ConversationSummaryBufferMemory_kwargs = None
            \<and> create_react_agent fw create_react_agent_kwargs = None
            \<and> from_agent_and_tools fw from_agent_and_tools_kwargs = None \<longrightarrow>
            program fw proc w0 lines = main (ainvoke fw) w0 lines)"
  using assms(2) main_loop_after_answered_turns [OF assms(1), of "query # stdin"]
  by (simp add: main_def program_def startup_def split: prod.splits)

theorem agent_exception_ends_loop_witness:
  "main answering_once 0 [''hello'', ''what time is it'', ''never read'']
     = ([Stdout (print_line [banner]), Stdout ask_prompt, AgentInvoked ''hello'',
         Stdout (print_line [response_label, ''It is noon.'']),
         Stdout ask_prompt, AgentInvoked ''what time is it''],
        Uncaught (Exc (Exception_subclass ''APIConnectionError'') ''Connection error.''))
   \<and> main answering_without_output () [''hello'', ''never read'']
     = ([Stdout (print_line [banner]), Stdout ask_prompt, AgentInvoked ''hello''],
        Uncaught (Exc KeyError ([CHR 0x27] @ ''output'' @ [CHR 0x27])))
   \<and> main answering () [''hello'', ''quit'']
     = ([Stdout (print_line [banner]), Stdout ask_prompt, AgentInvoked ''hello'',
         Stdout (print_line [response_label, ''It is noon.'']), Stdout ask_prompt],
        Returned)
   \<and> program example_framework process_without_deployment () [''hello'', ''quit'']
     = main answering () [''hello'', ''quit'']"
proof -
  have first: "answered_turns answering_once 0 [''hello'']
      = Some ([Stdout ask_prompt, AgentInvoked ''hello'',
               Stdout (print_line [response_label, ''It is noon.''])], 1)"
    by (simp add: answering_once_def lower_eq_quit_iff quit_spellings_def)
  have asks: "lower ''what time is it'' \<noteq> ''quit''" "lower ''hello'' \<noteq> ''quit''"
    by (simp_all add: lower_eq_quit_iff quit_spellings_def)
  have none: "answered_turns answering_without_output () [] = Some ([], ())"
    "answered_turns answering () [] = Some ([], ())"
    by simp_all
  show ?thesis
    using agent_exception_ends_loop
            [OF first asks(1), where ?w2.0 = 1 and stdin = "[''never read'']"
               and e = "Exc (Exception_subclass ''APIConnectionError'') ''Connection error.''"
               and fw = example_framework and proc = process_without_deployment
               and ?w0.0 = "()" and lines = "[''hello'', ''quit'']"]
          agent_exception_ends_loop
            [OF none(1) asks(2), where ?w2.0 = "()" and stdin = "[''never read'']"
               and response = "[''input'' \<mapsto> ''hello'']"
               and fw = example_framework and proc = process_without_deployment
               and ?w0.0 = "()" and lines = "[''hello'', ''quit'']"]
          agent_exception_ends_loop
            [OF none(2) asks(2), where ?w2.0 = "()" and stdin = "[''quit'']"
               and response = "[''input'' \<mapsto> ''hello'', ''output'' \<mapsto> ''It is noon.'']"
               and answer = "''It is noon.''" and fw = example_framework
               and proc = process_without_deployment and ?w0.0 = "()"
               and lines = "[''hello'', ''quit'']"]
    by (simp add: answering_once_def answering_without_output_def answering_def
          example_framework_def client_checking_credentials_def AzureChatOpenAI_kwargs_def
          openai_api_key_def endpoint_def api_version_def getenv_def
          startup_environment_def load_dotenv_def process_without_deployment_def
          lower_eq_quit_iff quit_spellings_def)
qed

text \<open>
  C1, as the specification has it, fails: with an LLM call that fails on the first
  query, the session ends there with the exception uncaught; the second line is never
  asked for and no message of the program follows.
\<close>

theorem provider_failure_ends_session:
  "main failing_provider () [''hello'', ''what time is it'']
     = ([Stdout (print_line [banner]), Stdout ask_prompt, AgentInvoked ''hello''],
        Uncaught (Exc (Exception_subclass ''APIConnectionError'') ''Connection error.''))"
  by (simp add: main_def failing_provider_def lower_eq_quit_iff quit_spellings_def)

subsection \<open>Start-up and configuration\<close>




text \<open>
  C5, as the script has it. The deployment identifier, the endpoint, the API key and
  the API version are the environment variables \<open>deployment\<close>, \<open>endpoint\<close>,
  \<open>subscription_key\<close> and \<open>api_version\<close> as they stand after \<open>load_dotenv\<close>, and the
  command line has no part in them. The temperature 0, the memory's token limit 150
  and its \<open>k\<close> of 10 are literals of the script, the same in every environment, and the
  script passes no maximum number of cycles to the executor.
\<close>

theorem credentials_from_environment_other_options_literal:
  "map_of (AzureChatOpenAI_kwargs (startup_environment proc)) ''azure_deployment''
     = Some (getenv (startup_environment proc) ''deployment'')
   \<and> map_of (AzureChatOpenAI_kwargs (startup_environment proc)) ''azure_endpoint''
     = Some (getenv (startup_environment proc) ''endpoint'')
   \<and> map_of (AzureChatOpenAI_kwargs (startup_environment proc)) ''api_key''
     = Some (getenv (startup_environment proc) ''subscription_key'')
   \<and> map_of (AzureChatOpenAI_kwargs (startup_environment proc)) ''api_version''
     = Some (getenv (startup_environment proc) ''api_version'')
   \<and> startup_environment (proc\<lparr>argv := flags\<rparr>) = startup_environment proc
   \<and> map_of (AzureChatOpenAI_kwargs (startup_environment proc)) ''temperature''
     = Some (PyInt 0)
   \<and> map_of ConversationSummaryBufferMemory_kwargs ''max_token_limit'' = Some (PyInt 150)
   \<and> map_of ConversationSummaryBufferMemory_kwargs ''k'' = Some (PyInt 10)
   \<and> map_of from_agent_and_tools_kwargs ''max_iterations'' = None"
  by (simp add: AzureChatOpenAI_kwargs_def ConversationSummaryBufferMemory_kwargs_def
        from_agent_and_tools_kwargs_def deployment_def endpoint_def openai_api_key_def
        api_version_def startup_environment_def)

text \<open>
  C5, as the specification has it, fails: in a process whose environment sets
  \<open>temperature\<close>, \<open>max_token_limit\<close>, \<open>k\<close> and \<open>max_iterations\<close>, the client is
  still built with temperature 0 and the memory with 150 and 10, and the executor is
  given no maximum number of cycles.
\<close>

theorem options_set_in_environment_are_ignored:
  "getenv (startup_environment process_setting_options) ''temperature'' = PyStr ''0.7''
   \<and> map_of (AzureChatOpenAI_kwargs (startup_environment process_setting_options))
        ''temperature'' = Some (PyInt 0)
   \<and> getenv (startup_environment process_setting_options) ''max_token_limit'' = PyStr ''4000''
   \<and> map_of ConversationSummaryBufferMemory_kwargs ''max_token_limit'' = Some (PyInt 150)
   \<and> getenv (startup_environment process_setting_options) ''k'' = PyStr ''2''
   \<and> map_of ConversationSummaryBufferMemory_kwargs ''k'' = Some (PyInt 10)
   \<and> getenv (startup_environment process_setting_options) ''max_iterations'' = PyStr ''3''
   \<and> map_of from_agent_and_tools_kwargs ''max_iterations'' = None"
  by (simp add: AzureChatOpenAI_kwargs_def ConversationSummaryBufferMemory_kwargs_def
        from_agent_and_tools_kwargs_def getenv_def startup_environment_def load_dotenv_def
        process_setting_options_def)

text \<open>
  C7. The LLM client is configured with temperature 0 in every run. The start-up calls
  the client constructor with keyword arguments whose temperature is 0 (the
  constructor's refusal of them ends the start-up), and with no others: a constructor
  that differs only on arguments of another temperature gives the same run. The
  configuration of the completion requests is the same in two runs whose
  environments agree on the four credentials, whatever else the environment or the
  command line holds, and so is everything the program then does on the same input.
\<close>

theorem temperature_fixed_at_zero:
  "map_of (AzureChatOpenAI_kwargs (startup_environment proc)) ''temperature'' = Some (PyInt 0)
   \<and> (hub_pull fw ''hwchase17/react'' = None
        \<and> AzureChatOpenAI fw (AzureChatOpenAI_kwargs (startup_environment proc)) = Some e \<longrightarrow>
      program fw proc w stdin = ([], Uncaught e))
   \<and> ((\<forall>kw. map_of kw ''temperature'' = Some (PyInt 0) \<longrightarrow> client kw = AzureChatOpenAI fw kw) \<longrightarrow>
      program (fw\<lparr>AzureChatOpenAI := client\<rparr>) proc w stdin = program fw proc w stdin)
   \<and> ((\<forall>name \<in> {''subscription_key'', ''deployment'', ''endpoint'', ''api_version''}.
          startup_environment proc' name = startup_environment proc name) \<longrightarrow>
      AzureChatOpenAI_kwargs (startup_environment proc')
        = AzureChatOpenAI_kwargs (startup_environment proc)
      \<and> program fw proc' w stdin = program fw proc w stdin)"
proof -
  have zero: "map_of (AzureChatOpenAI_kwargs env) ''temperature'' = Some (PyInt 0)" for env
    by (simp add: AzureChatOpenAI_kwargs_def)
  have asked: "program fw proc w stdin = ([], Uncaught e)"
    if "hub_pull fw ''hwchase17/react'' = None"
      and "AzureChatOpenAI fw (AzureChatOpenAI_kwargs (startup_environment proc)) = Some e"
    using that by (simp add: program_def startup_def)
  have only_zero: "program (fw\<lparr>AzureChatOpenAI := client\<rparr>) proc w stdin = program fw proc w stdin"
    if "\<forall>kw. map_of kw ''temperature'' = Some (PyInt 0) \<longrightarrow> client kw = AzureChatOpenAI fw kw"
  proof -
    from that zero
    have "client (AzureChatOpenAI_kwargs (startup_environment proc))
            = AzureChatOpenAI fw (AzureChatOpenAI_kwargs (startup_environment proc))"
      by blast
    then show ?thesis by (simp add: program_def startup_def split: option.splits)
  qed
  have same: "AzureChatOpenAI_kwargs (startup_environment proc')
        = AzureChatOpenAI_kwargs (startup_environment proc)"
    if "\<forall>name \<in> {''subscription_key'', ''deployment'', ''endpoint'', ''api_version''}.
          startup_environment proc' name = startup_environment proc name"
    using that
    by (simp add: AzureChatOpenAI_kwargs_def deployment_def endpoint_def openai_api_key_def
          api_version_def getenv_def)
  have same_run: "program fw proc' w stdin = program fw proc w stdin"
    if "\<forall>name \<in> {''subscription_key'', ''deployment'', ''endpoint'', ''api_version''}.
          startup_environment proc' name = startup_environment proc name"
    unfolding program_def startup_def by (simp only: same [OF that])
  show ?thesis
    using zero asked only_zero same same_run by blast
qed

theorem temperature_fixed_at_zero_witness:
  "program example_framework process_without_key () [''quit'']
     = ([], Uncaught (Exc (Exception_subclass ''OpenAIError'') ''Missing credentials.''))
   \<and> program (example_framework\<lparr>AzureChatOpenAI := client_refusing_other_temperatures\<rparr>)
        process_without_deployment () [''quit'']
     = program example_framework process_without_deployment () [''quit'']
   \<and> AzureChatOpenAI_kwargs (startup_environment process_with_deployment_only)
     = AzureChatOpenAI_kwargs (startup_environment process_setting_options)
   \<and> program example_framework process_with_deployment_only () [''hello'', ''quit'']
     = program example_framework process_setting_options () [''hello'', ''quit'']"
  using temperature_fixed_at_zero
          [where fw = example_framework and proc = process_without_key and w = "()"
             and e = "Exc (Exception_subclass ''OpenAIError'') ''Missing credentials.''"
             and stdin = "[''quit'']" and client = client_checking_credentials
             and proc' = process_without_key]
        temperature_fixed_at_zero
          [where fw = example_framework and proc = process_without_deployment and w = "()"
             and stdin = "[''quit'']" and client = client_refusing_other_temperatures
             and proc' = process_without_deployment]
        temperature_fixed_at_zero
          [where fw = example_framework and proc = process_setting_options and w = "()"
             and stdin = "[''hello'', ''quit'']" and client = client_checking_credentials
             and proc' = process_with_deployment_only]
  by (simp add: example_framework_def client_checking_credentials_def
        client_refusing_other_temperatures_def AzureChatOpenAI_kwargs_def
        openai_api_key_def endpoint_def api_version_def deployment_def getenv_def
        startup_environment_def load_dotenv_def process_without_key_def
        process_setting_options_def process_with_deployment_only_def)

subsection \<open>The clock tool\<close>

lemma is_digit_digit [simp]: "is_digit (digit n)"
  by (simp add: is_digit_def digit_def)

lemma value_digit [simp]: "(of_char (digit n) :: nat) - 48 = n mod 10"
  by (simp add: digit_def)

lemma is_digit_0: "is_digit CHR ''0''"
  by (simp add: is_digit_def)

lemma decimal_digits: "list_all is_digit (decimal n)"
  by (induction n rule: decimal.induct) (subst decimal.simps, simp)

lemma decimal_nonempty: "decimal n \<noteq> []"
  by (subst decimal.simps) simp

lemma foldl_decimal: "foldl (\<lambda>a c. 10 * a + (of_char c - 48)) 0 (decimal n) = n"
  by (induction n rule: decimal.induct) (subst decimal.simps, simp)

text \<open>A number below \<open>10 ^ w\<close> has at most \<open>w\<close> digits, so its padded form has exactly \<open>w\<close>.\<close>

lemma length_decimal: "n < 10 ^ w \<Longrightarrow> 0 < w \<Longrightarrow> length (decimal n) \<le> w"
proof (induction n arbitrary: w rule: decimal.induct)
  case (1 n)
  show ?case
  proof (cases "n < 10")
    case True
    then show ?thesis using "1.prems" by (subst decimal.simps) simp
  next
    case False
    then obtain v where w: "w = Suc v" "0 < v" using "1.prems"
      by (cases w; cases "w - 1") auto
    with "1.prems" have "n div 10 < 10 ^ v"
      by (simp add: less_mult_imp_div_less mult.commute)
    with "1.IH" [OF False this] w False show ?thesis by (subst decimal.simps) simp
  qed
qed

lemma length_zero_padded: "n < 10 ^ w \<Longrightarrow> 0 < w \<Longrightarrow> length (zero_padded w n) = w"
  using length_decimal [of n w] by (simp add: zero_padded_def)

lemma foldl_zeros:
  "foldl (\<lambda>a c. 10 * a + (of_char c - 48)) 0 (replicate k CHR ''0'' @ s)
     = foldl (\<lambda>a c. 10 * a + (of_char c - 48)) (0::nat) s"
  by (induction k) simp_all

lemma digits_value_zero_padded: "digits_value (zero_padded w n) = Some n"
proof -
  have "list_all is_digit (zero_padded w n)"
    using decimal_digits [of n] by (auto simp: zero_padded_def is_digit_0 list_all_iff)
  moreover have "zero_padded w n \<noteq> []"
    by (simp add: zero_padded_def decimal_nonempty)
  moreover have "foldl (\<lambda>a c. 10 * a + (of_char c - 48)) 0 (zero_padded w n) = n"
    unfolding zero_padded_def by (simp only: foldl_zeros foldl_decimal)
  ultimately show ?thesis by (simp add: digits_value_def)
qed

text \<open>What the reader finds in a text laid out as date, \<open>T\<close>, time, without and with fraction.\<close>

lemma iso8601_fields:
  assumes "length a = 4" "length b = 2" "length c = 2" "length d = 2" "length e = 2"
    "length f = 2"
  shows "iso8601_datetime (a @ ''-'' @ b @ ''-'' @ c @ ''T'' @ d @ '':'' @ e @ '':'' @ f) =
    (case (digits_value a, digits_value b, digits_value c, digits_value d, digits_value e,
           digits_value f) of
       (Some y, Some mo, Some dd, Some h, Some mi, Some sec) \<Rightarrow>
         if 1 \<le> mo \<and> mo \<le> 12 \<and> 1 \<le> dd \<and> dd \<le> 31 \<and> h < 24 \<and> mi < 60 \<and> sec < 60
         then Some \<lparr>year = y, month = mo, day = dd, hour = h, minute = mi, second = sec,
                    microsecond = 0\<rparr>
         else None
     | _ \<Rightarrow> None)"
  using assms by (simp add: iso8601_datetime_def nth_append split: option.splits)

lemma iso8601_fields_fraction:
  assumes "length a = 4" "length b = 2" "length c = 2" "length d = 2" "length e = 2"
    "length f = 2" "length g = 6"
  shows "iso8601_datetime
           (a @ ''-'' @ b @ ''-'' @ c @ ''T'' @ d @ '':'' @ e @ '':'' @ f @ ''.'' @ g) =
    (case (digits_value a, digits_value b, digits_value c, digits_value d, digits_value e,
           digits_value f, digits_value g) of
       (Some y, Some mo, Some dd, Some h, Some mi, Some sec, Some us) \<Rightarrow>
         if 1 \<le> mo \<and> mo \<le> 12 \<and> 1 \<le> dd \<and> dd \<le> 31 \<and> h < 24 \<and> mi < 60 \<and> sec < 60
         then Some \<lparr>year = y, month = mo, day = dd, hour = h, minute = mi, second = sec,
                    microsecond = us\<rparr>
         else None
     | _ \<Rightarrow> None)"
  using assms by (simp add: iso8601_datetime_def nth_append split: option.splits)

lemma iso8601_isoformat:
  assumes "datetime_in_range d"
  shows "iso8601_datetime (isoformat d) = Some d"
proof -
  from assms have len:
    "length (zero_padded 4 (year d)) = 4" "length (zero_padded 2 (month d)) = 2"
    "length (zero_padded 2 (day d)) = 2" "length (zero_padded 2 (hour d)) = 2"
    "length (zero_padded 2 (minute d)) = 2" "length (zero_padded 2 (second d)) = 2"
    "length (zero_padded 6 (microsecond d)) = 6"
    by (simp_all add: datetime_in_range_def length_zero_padded)
  show ?thesis
  proof (cases "microsecond d = 0")
    case True
    have "isoformat d = zero_padded 4 (year d) @ ''-'' @ zero_padded 2 (month d) @ ''-''
        @ zero_padded 2 (day d) @ ''T'' @ zero_padded 2 (hour d) @ '':''
        @ zero_padded 2 (minute d) @ '':'' @ zero_padded 2 (second d)"
      using True by (simp add: isoformat_def)
    then show ?thesis
      using assms True
      by (simp only: iso8601_fields [OF len(1-6)] digits_value_zero_padded)
         (simp add: datetime_in_range_def)
  next
    case False
    have "isoformat d = zero_padded 4 (year d) @ ''-'' @ zero_padded 2 (month d) @ ''-''
        @ zero_padded 2 (day d) @ ''T'' @ zero_padded 2 (hour d) @ '':''
        @ zero_padded 2 (minute d) @ '':'' @ zero_padded 2 (second d)
        @ ''.'' @ zero_padded 6 (microsecond d)"
      using False by (simp add: isoformat_def)
    then show ?thesis
      using assms
      by (simp only: iso8601_fields_fraction [OF len] digits_value_zero_padded)
         (simp add: datetime_in_range_def)
  qed
qed

text \<open>
  C6. The clock tool ignores its arguments, never raises, and returns the clock's
  reading in ISO 8601 form: whatever the positional and keyword arguments, the result
  is the \<open>isoformat\<close> text of the reading, and that text reads back, as an ISO 8601
  date and time, to the very fields of the reading.
\<close>

theorem clock_tool_returns_iso8601_of_now:
  assumes "datetime_in_range now"
  shows "get_current_datetime now args kwargs = Inr (isoformat now)
       \<and> get_current_datetime now args kwargs = get_current_datetime now [] []
       \<and> iso8601_datetime (isoformat now) = Some now"
  using iso8601_isoformat [OF assms] by (simp add: get_current_datetime_def)

theorem clock_tool_returns_iso8601_of_now_witness:
  "get_current_datetime noon [PyStr ''what time is it''] [] = Inr ''2026-11-03T12:00:07.001234''
   \<and> iso8601_datetime ''2026-11-03T12:00:07.001234'' = Some noon"
proof -
  have ok: "datetime_in_range noon"
    by (simp add: datetime_in_range_def noon_def)
  have iso: "isoformat noon = ''2026-11-03T12:00:07.001234''"
    by code_simp
  show ?thesis
    using clock_tool_returns_iso8601_of_now [OF ok, of "[PyStr ''what time is it'']" "[]"]
    by (simp only: iso)
qed

subsection \<open>The Wikipedia tool\<close>

text \<open>
  C3. When the Wikipedia client raises its disambiguation error or its page-not-found
  error for a query, the tool does not raise: it returns a plain string, the text
  \<open>Disambiguation error: \<close> followed by the error's text in the first case and the
  text \<open>Page not found.\<close> in the second.
\<close>

theorem wikipedia_ambiguous_or_missing_is_string:
  "summary query = Inl e \<Longrightarrow> cls e = DisambiguationError \<or> cls e = PageError \<Longrightarrow>
     get_wikipedia_summary summary query =
       Inr (if cls e = DisambiguationError then ''Disambiguation error: '' @ str e
            else ''Page not found.'')"
  by (auto simp: get_wikipedia_summary_def)

theorem wikipedia_ambiguous_or_missing_is_string_witness:
  "get_wikipedia_summary (\<lambda>q. Inl (Exc DisambiguationError ''Mercury may refer to: planet, element''))
       ''Mercury''
     = Inr ''Disambiguation error: Mercury may refer to: planet, element''
   \<and> get_wikipedia_summary (\<lambda>q. Inl (Exc PageError ''no match'')) ''zzzz''
     = Inr ''Page not found.''"
  using wikipedia_ambiguous_or_missing_is_string
          [of "\<lambda>q. Inl (Exc DisambiguationError ''Mercury may refer to: planet, element'')"
              "''Mercury''" "Exc DisambiguationError ''Mercury may refer to: planet, element''"]
        wikipedia_ambiguous_or_missing_is_string
          [of "\<lambda>q. Inl (Exc PageError ''no match'')" "''zzzz''" "Exc PageError ''no match''"]
  by simp

text \<open>
  C10, as the script has it. Whatever the Wikipedia client does for a query, return a
  summary or raise an exception of a class deriving from \<open>Exception\<close>, the tool returns
  a string and raises nothing; for an exception that is neither the disambiguation nor
  the page-not-found error the string is the exception's own text. An exception of a
  class outside \<open>Exception\<close> passes the three handlers and reaches the caller.
\<close>

theorem wikipedia_tool_total:
  "(summary query = Inr page \<longrightarrow> get_wikipedia_summary summary query = Inr page)
   \<and> (summary query = Inl e \<and> derives_from_Exception (cls e) \<longrightarrow>
        (\<exists>s. get_wikipedia_summary summary query = Inr s))
   \<and> (summary query = Inl e \<and> derives_from_Exception (cls e)
        \<and> cls e \<noteq> DisambiguationError \<and> cls e \<noteq> PageError \<longrightarrow>
        get_wikipedia_summary summary query = Inr (str e))
   \<and> (summary query = Inl e \<and> \<not> derives_from_Exception (cls e) \<longrightarrow>
        get_wikipedia_summary summary query = Inl e)"
  by (auto simp: get_wikipedia_summary_def)

theorem wikipedia_tool_total_witness:
  "get_wikipedia_summary (\<lambda>q. Inr ''Alan Turing was a mathematician.'') ''Alan Turing''
     = Inr ''Alan Turing was a mathematician.''
   \<and> get_wikipedia_summary
       (\<lambda>q. Inl (Exc (Exception_subclass ''ConnectionError'') ''connection refused''))
       ''Alan Turing''
     = Inr ''connection refused''
   \<and> get_wikipedia_summary (\<lambda>q. Inl (Exc (BaseException_subclass ''SystemExit'') ''1''))
       ''Alan Turing''
     = Inl (Exc (BaseException_subclass ''SystemExit'') ''1'')"
  using wikipedia_tool_total
          [where summary = "\<lambda>q. Inr ''Alan Turing was a mathematician.''"
             and query = "''Alan Turing''" and page = "''Alan Turing was a mathematician.''"]
        wikipedia_tool_total
          [where summary = "\<lambda>q. Inl (Exc (Exception_subclass ''ConnectionError'')
                                    ''connection refused'')"
             and query = "''Alan Turing''"
             and e = "Exc (Exception_subclass ''ConnectionError'') ''connection refused''"]
        wikipedia_tool_total
          [where summary = "\<lambda>q. Inl (Exc (BaseException_subclass ''SystemExit'') ''1'')"
             and query = "''Alan Turing''"
             and e = "Exc (BaseException_subclass ''SystemExit'') ''1''"]
  by simp

text \<open>
  C10, as the specification has it, fails: when the user interrupts the lookup, the
  \<open>KeyboardInterrupt\<close> raised inside the client call is not an \<open>Exception\<close>; no handler
  of the tool takes it and it propagates to the caller.
\<close>

theorem interrupt_leaves_wikipedia_tool:
  "get_wikipedia_summary (\<lambda>q. Inl (Exc (BaseException_subclass ''KeyboardInterrupt'') []))
       ''Alan Turing''
     = Inl (Exc (BaseException_subclass ''KeyboardInterrupt'') [])"
  by (simp add: get_wikipedia_summary_def)

end
